theory Spec2Isabelle
  imports Main "HOL-Library.Word"
begin

section \<open>Machine types and the program state\<close>

text \<open>
  The header \<^verbatim>\<open>strings_internal.h\<close> declares two classes. \<^verbatim>\<open>StringParameters\<close> is a
  view on an array of 64-bit slots with a read cursor; a view may point to a parent view
  and then writes to the parent's cursor in its destructor. \<^verbatim>\<open>StringBuilder\<close> wraps a
  \<^verbatim>\<open>std::string\<close>.
\<close>

text \<open>
  Modelled from the spec: the typedefs \<^verbatim>\<open>uint\<close>, \<^verbatim>\<open>uint64\<close>, \<^verbatim>\<open>int64\<close>, \<^verbatim>\<open>int32\<close> and
  \<^verbatim>\<open>WChar\<close> are declared outside this header. The integer types are machine integers
  of the width their name gives, \<^verbatim>\<open>uint\<close> being \<^verbatim>\<open>unsigned int\<close> with 32 bits, so \<open>+\<close>
  and \<open>-\<close> on it wrap around. A signed type is its bit pattern, which \<open>sint\<close> reads as
  the signed value. The specification calls a type tag an opaque small integer
  identifier; a \<^verbatim>\<open>WChar\<close> is a 32-bit value here, and the header only stores it and
  passes it on.
\<close>

type_synonym uint = "32 word"
type_synonym uint64 = "64 word"
type_synonym int64 = "64 word"
type_synonym int32 = "32 word"
type_synonym WChar = "32 word"

text \<open>
  Pointers. A \<^verbatim>\<open>uint64 *\<close> or \<^verbatim>\<open>WChar *\<close> is the index of a cell in the memory of its
  element type, and \<^verbatim>\<open>p + n\<close> is the index \<open>n\<close> cells further. \<^verbatim>\<open>nullptr\<close> is written
  \<open>None\<close> where the code tests for it (the \<^verbatim>\<open>type\<close> and \<^verbatim>\<open>parent\<close> members).
  A \<^verbatim>\<open>StringParameters *\<close> is the address of an object in the object store.
\<close>

type_synonym addr = nat
type_synonym ref = nat

record StringParameters =
  parent :: "ref option"
  data :: addr
  type :: "addr option"
  offset :: uint
  num_param :: uint
  next_type :: WChar

text \<open>
  The state of the program: the live \<^verbatim>\<open>StringParameters\<close> objects, the memory of
  \<^verbatim>\<open>uint64\<close> cells and the memory of \<^verbatim>\<open>WChar\<close> cells. Views that alias the same array
  hold addresses into the same memory. Whether the array a caller hands to a constructor
  really has \<^verbatim>\<open>num_param\<close> cells is never checked by the header; the memories are
  therefore total, and the only range checks are the assertions of the code.
\<close>

record heap =
  objs :: "ref \<rightharpoonup> StringParameters"
  mem64 :: "addr \<Rightarrow> uint64"
  memT :: "addr \<Rightarrow> WChar"

text \<open>
  A failed \<^verbatim>\<open>assert\<close> aborts the program; a call through a pointer to an object that
  is not alive has no defined behaviour; \<^verbatim>\<open>std::string::erase\<close> throws when its
  position lies behind the end of the string. Each is a value of \<open>error\<close>. An operation
  returns its result, or the error, together with the state it leaves behind.
\<close>

datatype error = AssertionFailed | InvalidObject | OutOfRange

type_synonym 'a outcome = "(error + 'a) \<times> heap"

section \<open>StringParameters\<close>

subsection \<open>Constructors and destructor\<close>

text \<open>
  \<^verbatim>\<open>StringParameters(uint64 *data, uint num_param, WChar *type)\<close>. The first argument
  of each constructor of the model, \<open>this\<close>, is the address at which the object is built.
\<close>

definition StringParameters_ctor :: "ref \<Rightarrow> addr \<Rightarrow> uint \<Rightarrow> addr option \<Rightarrow> heap \<Rightarrow> unit outcome" where
  "StringParameters_ctor this d n t h =
     (Inr (), h\<lparr>objs := (objs h)(this \<mapsto>
        \<lparr>parent = None, data = d, type = t, offset = 0, num_param = n, next_type = 0\<rparr>)\<rparr>)"

text \<open>
  \<^verbatim>\<open>template <size_t Tnum_param> StringParameters(int64 (&data)[Tnum_param])\<close>. The array
  of \<^verbatim>\<open>int64\<close> is read as \<^verbatim>\<open>uint64\<close> cells; \<^verbatim>\<open>Tnum_param\<close> is narrowed to \<^verbatim>\<open>uint\<close>.
\<close>

definition StringParameters_ctor_array :: "ref \<Rightarrow> addr \<Rightarrow> nat \<Rightarrow> heap \<Rightarrow> unit outcome" where
  "StringParameters_ctor_array this d Tnum_param h =
     (Inr (), h\<lparr>objs := (objs h)(this \<mapsto>
        \<lparr>parent = None, data = d, type = None, offset = 0,
         num_param = of_nat Tnum_param, next_type = 0\<rparr>)\<rparr>)"

text \<open>\<^verbatim>\<open>uint GetDataLeft() const\<close>: an unsigned subtraction.\<close>

definition GetDataLeft :: "ref \<Rightarrow> heap \<Rightarrow> uint outcome" where
  "GetDataLeft this h =
     (case objs h this of
        None \<Rightarrow> (Inl InvalidObject, h)
      | Some s \<Rightarrow> (Inr (num_param s - offset s), h))"

text \<open>
  \<^verbatim>\<open>StringParameters(StringParameters &parent, uint size)\<close>. The member initialisers and
  the body write to the object under construction only, which becomes a live object when
  the constructor returns; the assertion is the first statement of the body.
\<close>

definition StringParameters_ctor_sub :: "ref \<Rightarrow> ref \<Rightarrow> uint \<Rightarrow> heap \<Rightarrow> unit outcome" where
  "StringParameters_ctor_sub this p sz h =
     (case objs h p of
        None \<Rightarrow> (Inl InvalidObject, h)
      | Some P \<Rightarrow>
          (case GetDataLeft p h of
             (Inl e, h') \<Rightarrow> (Inl e, h')
           | (Inr left, h') \<Rightarrow>
               if \<not> sz \<le> left then (Inl AssertionFailed, h')
               else (Inr (), h'\<lparr>objs := (objs h')(this \<mapsto>
                      \<lparr>parent = Some p,
                       data = data P + unat (offset P),
                       type = (case type P of None \<Rightarrow> None
                                | Some t \<Rightarrow> Some (t + unat (offset P))),
                       offset = 0, num_param = sz, next_type = 0\<rparr>)\<rparr>)))"

text \<open>
  \<^verbatim>\<open>~StringParameters()\<close>: with a parent, \<^verbatim>\<open>this->parent->offset += this->num_param\<close>;
  then the object is gone.
\<close>

definition StringParameters_dtor :: "ref \<Rightarrow> heap \<Rightarrow> unit outcome" where
  "StringParameters_dtor this h =
     (case objs h this of
        None \<Rightarrow> (Inl InvalidObject, h)
      | Some s \<Rightarrow>
          (case parent s of
             None \<Rightarrow> (Inr (), h\<lparr>objs := (objs h)(this := None)\<rparr>)
           | Some p \<Rightarrow>
               (case objs h p of
                  None \<Rightarrow> (Inl InvalidObject, h)
                | Some P \<Rightarrow>
                    (Inr (), h\<lparr>objs := ((objs h)(p \<mapsto> P\<lparr>offset := offset P + num_param s\<rparr>))
                                         (this := None)\<rparr>))))"

subsection \<open>Reading with the cursor\<close>

text \<open>
  Modelled from the spec: the body of \<^verbatim>\<open>int64 StringParameters::GetInt64()\<close> is not in
  this header, which only declares it. The specification says: it returns the value at
  the cursor, reinterpreted as a signed 64-bit integer, and advances the cursor by one;
  it fails with a precondition violation if the cursor is not below the length.
  The result is the 64-bit pattern; \<open>sint\<close> reads it as the signed value.
\<close>

definition GetInt64 :: "ref \<Rightarrow> heap \<Rightarrow> int64 outcome" where
  "GetInt64 this h =
     (case objs h this of
        None \<Rightarrow> (Inl InvalidObject, h)
      | Some s \<Rightarrow>
          if \<not> offset s < num_param s then (Inl AssertionFailed, h)
          else (Inr (mem64 h (data s + unat (offset s))),
                h\<lparr>objs := (objs h)(this \<mapsto> s\<lparr>offset := offset s + 1\<rparr>)\<rparr>))"

text \<open>\<^verbatim>\<open>int32 GetInt32() { return (int32)this->GetInt64(); }\<close>: the low 32 bits.\<close>

definition GetInt32 :: "ref \<Rightarrow> heap \<Rightarrow> int32 outcome" where
  "GetInt32 this h =
     (case GetInt64 this h of
        (Inl e, h') \<Rightarrow> (Inl e, h')
      | (Inr v, h') \<Rightarrow> (Inr (ucast v), h'))"

text \<open>
  \<^verbatim>\<open>StringParameters GetRemainingParameters()\<close> returns a new object, built by the first
  constructor at the address \<open>res\<close> of the caller's result.
\<close>

definition GetRemainingParameters :: "ref \<Rightarrow> ref \<Rightarrow> heap \<Rightarrow> unit outcome" where
  "GetRemainingParameters this res h =
     (case objs h this of
        None \<Rightarrow> (Inl InvalidObject, h)
      | Some s \<Rightarrow>
          (case GetDataLeft this h of
             (Inl e, h') \<Rightarrow> (Inl e, h')
           | (Inr left, h') \<Rightarrow>
               StringParameters_ctor res (data s + unat (offset s)) left
                 (case type s of None \<Rightarrow> None | Some t \<Rightarrow> Some (t + unat (offset s))) h'))"

subsection \<open>Indexed access\<close>

text \<open>\<^verbatim>\<open>uint64 *GetPointerToOffset(uint offset) const\<close>.\<close>

definition GetPointerToOffset :: "ref \<Rightarrow> uint \<Rightarrow> heap \<Rightarrow> addr outcome" where
  "GetPointerToOffset this off h =
     (case objs h this of
        None \<Rightarrow> (Inl InvalidObject, h)
      | Some s \<Rightarrow>
          if \<not> off < num_param s then (Inl AssertionFailed, h)
          else (Inr (data s + unat off), h))"

text \<open>\<^verbatim>\<open>bool HasTypeInformation() const\<close>.\<close>

definition HasTypeInformation :: "ref \<Rightarrow> heap \<Rightarrow> bool outcome" where
  "HasTypeInformation this h =
     (case objs h this of
        None \<Rightarrow> (Inl InvalidObject, h)
      | Some s \<Rightarrow> (Inr (type s \<noteq> None), h))"

text \<open>
  \<^verbatim>\<open>WChar GetTypeAtOffset(uint offset) const\<close>: two assertions, in this order. Behind the
  second one \<^verbatim>\<open>type\<close> is not null, so the case \<open>None\<close> of the last distinction is
  never reached.
\<close>

definition GetTypeAtOffset :: "ref \<Rightarrow> uint \<Rightarrow> heap \<Rightarrow> WChar outcome" where
  "GetTypeAtOffset this off h =
     (case objs h this of
        None \<Rightarrow> (Inl InvalidObject, h)
      | Some s \<Rightarrow>
          if \<not> off < num_param s then (Inl AssertionFailed, h)
          else (case HasTypeInformation this h of
                  (Inl e, h') \<Rightarrow> (Inl e, h')
                | (Inr has, h') \<Rightarrow>
                    if \<not> has then (Inl AssertionFailed, h')
                    else (case type s of
                            None \<Rightarrow> (Inl InvalidObject, h')
                          | Some t \<Rightarrow> (Inr (memT h' (t + unat off)), h'))))"

text \<open>\<^verbatim>\<open>void SetParam(uint n, uint64 v)\<close>.\<close>

definition SetParam :: "ref \<Rightarrow> uint \<Rightarrow> uint64 \<Rightarrow> heap \<Rightarrow> unit outcome" where
  "SetParam this n v h =
     (case objs h this of
        None \<Rightarrow> (Inl InvalidObject, h)
      | Some s \<Rightarrow>
          if \<not> n < num_param s then (Inl AssertionFailed, h)
          else (Inr (), h\<lparr>mem64 := (mem64 h)(data s + unat n := v)\<rparr>))"

text \<open>\<^verbatim>\<open>uint64 GetParam(uint n) const\<close>.\<close>

definition GetParam :: "ref \<Rightarrow> uint \<Rightarrow> heap \<Rightarrow> uint64 outcome" where
  "GetParam this n h =
     (case objs h this of
        None \<Rightarrow> (Inl InvalidObject, h)
      | Some s \<Rightarrow>
          if \<not> n < num_param s then (Inl AssertionFailed, h)
          else (Inr (mem64 h (data s + unat n)), h))"

subsection \<open>Sequences of reads\<close>

text \<open>
  A caller that reads several values in a row, each with \<^verbatim>\<open>GetInt32\<close> or
  \<^verbatim>\<open>GetInt64\<close>. The first failing call ends the run; the values read are returned
  as signed integers.
\<close>

datatype next_call = NextInt32 | NextInt64

fun call_Next :: "next_call \<Rightarrow> ref \<Rightarrow> heap \<Rightarrow> int outcome" where
  "call_Next NextInt32 this h =
     (case GetInt32 this h of
        (Inl e, h') \<Rightarrow> (Inl e, h')
      | (Inr v, h') \<Rightarrow> (Inr (sint v), h'))"
| "call_Next NextInt64 this h =
     (case GetInt64 this h of
        (Inl e, h') \<Rightarrow> (Inl e, h')
      | (Inr v, h') \<Rightarrow> (Inr (sint v), h'))"

fun call_Nexts :: "next_call list \<Rightarrow> ref \<Rightarrow> heap \<Rightarrow> int list outcome" where
  "call_Nexts [] this h = (Inr [], h)"
| "call_Nexts (c # cs) this h =
     (case call_Next c this h of
        (Inl e, h') \<Rightarrow> (Inl e, h')
      | (Inr v, h') \<Rightarrow>
          (case call_Nexts cs this h' of
             (Inl e, h'') \<Rightarrow> (Inl e, h'')
           | (Inr vs, h'') \<Rightarrow> (Inr (v # vs), h'')))"

section \<open>StringBuilder\<close>

text \<open>
  A \<^verbatim>\<open>StringBuilder\<close> holds a pointer to a \<^verbatim>\<open>std::string\<close> and nothing else. Each
  operation is given the content of that string and returns its new content. A
  \<^verbatim>\<open>size_t\<close> is a natural number here: the only arithmetic on it is
  \<^verbatim>\<open>size() - std::min(amount, size())\<close>, which cannot wrap.
\<close>

text \<open>\<^verbatim>\<open>std::string::push_back\<close> and \<^verbatim>\<open>std::string::operator+=\<close>.\<close>

definition push_back :: "char \<Rightarrow> string \<Rightarrow> string" where
  "push_back c s = s @ [c]"

definition string_append :: "string \<Rightarrow> string \<Rightarrow> string" where
  "string_append str s = s @ str"

text \<open>
  \<^verbatim>\<open>std::string::erase(pos)\<close> removes the characters from \<open>pos\<close> to the end, and throws
  \<^verbatim>\<open>std::out_of_range\<close> when \<open>pos\<close> is greater than the size.
\<close>

definition string_erase :: "nat \<Rightarrow> string \<Rightarrow> error + string" where
  "string_erase pos s = (if pos > length s then Inl OutOfRange else Inr (take pos s))"

text \<open>\<^verbatim>\<open>StringBuilder &operator+=(const char value)\<close>.\<close>

definition StringBuilder_add_char :: "char \<Rightarrow> string \<Rightarrow> string" where
  "StringBuilder_add_char c s = push_back c s"

text \<open>\<^verbatim>\<open>StringBuilder &operator=(const char value)\<close> forwards to \<^verbatim>\<open>operator+=\<close>.\<close>

definition StringBuilder_assign_char :: "char \<Rightarrow> string \<Rightarrow> string" where
  "StringBuilder_assign_char c s = StringBuilder_add_char c s"

text \<open>\<^verbatim>\<open>StringBuilder &operator+=(std::string_view str)\<close>.\<close>

definition StringBuilder_add_str :: "string \<Rightarrow> string \<Rightarrow> string" where
  "StringBuilder_add_str str s = string_append str s"

text \<open>\<^verbatim>\<open>void RemoveElementsFromBack(size_t amount)\<close>.\<close>

definition RemoveElementsFromBack :: "nat \<Rightarrow> string \<Rightarrow> error + string" where
  "RemoveElementsFromBack amount s = string_erase (length s - min amount (length s)) s"

text \<open>\<^verbatim>\<open>size_t CurrentIndex()\<close>.\<close>

definition CurrentIndex :: "string \<Rightarrow> nat" where
  "CurrentIndex s = length s"

section \<open>Example states\<close>

text \<open>
  A root list of three slots holding 5, 7 and 2, with type tags, built at address 0 over
  the cells 0, 1 and 2 of both memories.
\<close>

definition example_memory :: heap where
  "example_memory =
     \<lparr>objs = Map.empty,
      mem64 = (\<lambda>a. if a = 0 then 5 else if a = 1 then 7 else 2),
      memT = (\<lambda>a. 0)\<rparr>"

definition example_root :: heap where
  "example_root =
     example_memory\<lparr>objs :=
       [0 \<mapsto> \<lparr>parent = None, data = 0, type = Some 0, offset = 0, num_param = 3,
              next_type = 0\<rparr>]\<rparr>"

text \<open>
  The same root after a child view of size 2 was made at address 1 and has read one
  value: the child's cursor is 1, the root's cursor is still 0.
\<close>

definition example_child_read :: heap where
  "example_child_read =
     example_memory\<lparr>objs :=
       [0 \<mapsto> \<lparr>parent = None, data = 0, type = Some 0, offset = 0, num_param = 3,
              next_type = 0\<rparr>,
        1 \<mapsto> \<lparr>parent = Some 0, data = 0, type = Some 0, offset = 1, num_param = 2,
              next_type = 0\<rparr>]\<rparr>"

text \<open>The cursor of the object at an address, if there is one.\<close>

definition cursor_of :: "ref \<Rightarrow> heap \<Rightarrow> uint option" where
  "cursor_of r h = map_option offset (objs h r)"

section \<open>Facts about single operations\<close>

lemma example_root_built:
  "StringParameters_ctor 0 0 3 (Some 0) example_memory = (Inr (), example_root)"
  by (simp add: StringParameters_ctor_def example_root_def example_memory_def)

lemma example_child_read_built:
  "\<exists>h1. StringParameters_ctor_sub 1 0 2 example_root = (Inr (), h1)
      \<and> GetInt64 1 h1 = (Inr 5, example_child_read)"
  by (simp add: StringParameters_ctor_sub_def GetDataLeft_def GetInt64_def example_root_def
      example_child_read_def example_memory_def fun_upd_twist)

lemma ctor_sub_ok:
  "objs h p = Some P \<Longrightarrow> k \<le> num_param P - offset P \<Longrightarrow>
   StringParameters_ctor_sub c p k h =
     (Inr (), h\<lparr>objs := (objs h)(c \<mapsto>
        \<lparr>parent = Some p, data = data P + unat (offset P),
         type = map_option (\<lambda>t. t + unat (offset P)) (type P),
         offset = 0, num_param = k, next_type = 0\<rparr>)\<rparr>)"
  by (simp add: StringParameters_ctor_sub_def GetDataLeft_def split: option.splits)

lemma dtor_child:
  "objs h c = Some s \<Longrightarrow> parent s = Some p \<Longrightarrow> objs h p = Some P \<Longrightarrow>
   StringParameters_dtor c h =
     (Inr (), h\<lparr>objs := ((objs h)(p \<mapsto> P\<lparr>offset := offset P + num_param s\<rparr>))(c := None)\<rparr>)"
  by (simp add: StringParameters_dtor_def)

lemma dtor_root:
  "objs h c = Some s \<Longrightarrow> parent s = None \<Longrightarrow>
   StringParameters_dtor c h = (Inr (), h\<lparr>objs := (objs h)(c := None)\<rparr>)"
  by (simp add: StringParameters_dtor_def)

lemma unat_succ: "(i :: uint) < n \<Longrightarrow> unat (i + 1) = Suc (unat i)"
  by unat_arith

lemma add_within_window:
  "(i :: uint) \<le> n \<Longrightarrow> k \<le> n - i \<Longrightarrow> unat (i + k) = unat i + unat k \<and> i + k \<le> n"
  by unat_arith

lemma call_Next_ok:
  "objs h c = Some s \<Longrightarrow> offset s < num_param s \<Longrightarrow>
   \<exists>v. call_Next k c h = (Inr v, h\<lparr>objs := (objs h)(c \<mapsto> s\<lparr>offset := offset s + 1\<rparr>)\<rparr>)"
  by (cases k) (simp_all add: GetInt32_def GetInt64_def)

lemma GetInt32_fail:
  "objs h c = Some s \<Longrightarrow> \<not> offset s < num_param s \<Longrightarrow>
   GetInt32 c h = (Inl AssertionFailed, h)"
  by (simp add: GetInt32_def GetInt64_def)

section \<open>Sequences of reads\<close>

text \<open>
  As long as the number of calls does not exceed the distance from the cursor to the
  length, every call succeeds and the cursor has advanced by the number of calls; no
  other object and no memory cell has changed.
\<close>

lemma call_Nexts_ok:
  "objs h c = Some s \<Longrightarrow> length cs \<le> unat (num_param s) - unat (offset s) \<Longrightarrow>
   \<exists>vs. call_Nexts cs c h =
          (Inr vs, h\<lparr>objs := (objs h)(c \<mapsto> s\<lparr>offset := offset s + of_nat (length cs)\<rparr>)\<rparr>)
        \<and> length vs = length cs"
proof (induction cs arbitrary: h s)
  case Nil
  then show ?case by (simp add: map_upd_triv)
next
  case (Cons k cs)
  from Cons.prems(2) have lt: "offset s < num_param s"
    by (simp add: word_less_nat_alt)
  let ?s' = "s\<lparr>offset := offset s + 1\<rparr>"
  let ?h' = "h\<lparr>objs := (objs h)(c \<mapsto> ?s')\<rparr>"
  from call_Next_ok [OF Cons.prems(1) lt, of k]
  obtain v where v: "call_Next k c h = (Inr v, ?h')" by blast
  have o': "objs ?h' c = Some ?s'" by simp
  have "unat (offset ?s') = Suc (unat (offset s))"
    using lt by (simp add: unat_succ)
  with Cons.prems(2) have len: "length cs \<le> unat (num_param ?s') - unat (offset ?s')"
    by simp
  from Cons.IH [OF o' len]
  obtain vs where vs: "call_Nexts cs c ?h' =
       (Inr vs, ?h'\<lparr>objs := (objs ?h')(c \<mapsto> ?s'\<lparr>offset := offset ?s' + of_nat (length cs)\<rparr>)\<rparr>)"
     and l: "length vs = length cs" by blast
  have "offset ?s' + of_nat (length cs) = offset s + of_nat (length (k # cs))"
    by simp
  then have heap_eq:
    "?h'\<lparr>objs := (objs ?h')(c \<mapsto> ?s'\<lparr>offset := offset ?s' + of_nat (length cs)\<rparr>)\<rparr> =
     h\<lparr>objs := (objs h)(c \<mapsto> s\<lparr>offset := offset s + of_nat (length (k # cs))\<rparr>)\<rparr>"
    by (simp add: add.assoc)
  have "call_Nexts (k # cs) c h =
       (Inr (v # vs), ?h'\<lparr>objs := (objs ?h')(c \<mapsto> ?s'\<lparr>offset := offset ?s' + of_nat (length cs)\<rparr>)\<rparr>)"
    using v vs by simp
  with heap_eq have "call_Nexts (k # cs) c h =
       (Inr (v # vs), h\<lparr>objs := (objs h)(c \<mapsto> s\<lparr>offset := offset s + of_nat (length (k # cs))\<rparr>)\<rparr>)"
    by (simp only:)
  moreover have "length (v # vs) = length (k # cs)" using l by simp
  ultimately show ?case by blast
qed

section \<open>Child views and the parent's cursor\<close>

text \<open>
  C1. Let \<open>P\<close> be a list at address \<open>p\<close> and \<open>k\<close> not more than what \<^verbatim>\<open>GetDataLeft\<close>
  computes for it. Building a child view of size \<open>k\<close> at another address \<open>c\<close> succeeds
  and leaves \<open>P\<close> as it was, cursor included. When the child then reads \<open>j \<le> k\<close> values
  (the calls \<open>cs\<close>, \<open>j = length cs\<close>), all reads succeed and the child's cursor is \<open>j\<close>;
  destroying the child sets the parent's cursor to its old value plus \<open>k\<close>, whatever
  \<open>j\<close> is. The addition is that of \<^verbatim>\<open>uint\<close>; when the parent's cursor was not
  beyond its length, the sum does not wrap around and stays within the length.
\<close>

theorem MakeSubView_dtor_advances_by_size:
  assumes P: "objs h p = Some P"
    and cp: "c \<noteq> p"
    and k: "k \<le> num_param P - offset P"
    and j: "length cs \<le> unat k"
  shows "\<exists>h1 vs h2 h3.
           StringParameters_ctor_sub c p k h = (Inr (), h1)
         \<and> objs h1 p = Some P
         \<and> call_Nexts cs c h1 = (Inr vs, h2)
         \<and> length vs = length cs
         \<and> cursor_of c h2 = Some (of_nat (length cs))
         \<and> StringParameters_dtor c h2 = (Inr (), h3)
         \<and> objs h3 p = Some (P\<lparr>offset := offset P + k\<rparr>)
         \<and> (offset P \<le> num_param P \<longrightarrow>
               unat (offset P + k) = unat (offset P) + unat k \<and> offset P + k \<le> num_param P)"
proof -
  let ?child = "\<lparr>parent = Some p, data = data P + unat (offset P),
                 type = map_option (\<lambda>t. t + unat (offset P)) (type P),
                 offset = 0, num_param = k, next_type = 0\<rparr>"
  let ?h1 = "h\<lparr>objs := (objs h)(c \<mapsto> ?child)\<rparr>"
  have ctor: "StringParameters_ctor_sub c p k h = (Inr (), ?h1)"
    by (rule ctor_sub_ok [OF P k])
  have P1: "objs ?h1 p = Some P"
    using P cp by simp
  have c1: "objs ?h1 c = Some ?child" by simp
  have "length cs \<le> unat (num_param ?child) - unat (offset ?child)"
    using j by simp
  from call_Nexts_ok [OF c1 this]
  obtain vs where
    run: "call_Nexts cs c ?h1 =
            (Inr vs, ?h1\<lparr>objs := (objs ?h1)(c \<mapsto> ?child\<lparr>offset := offset ?child + of_nat (length cs)\<rparr>)\<rparr>)"
    and len: "length vs = length cs"
    by blast
  let ?child2 = "?child\<lparr>offset := offset ?child + of_nat (length cs)\<rparr>"
  let ?h2 = "?h1\<lparr>objs := (objs ?h1)(c \<mapsto> ?child2)\<rparr>"
  have c2: "objs ?h2 c = Some ?child2" by simp
  have par2: "parent ?child2 = Some p" by simp
  have P2: "objs ?h2 p = Some P"
    using P cp by simp
  have cur: "cursor_of c ?h2 = Some (of_nat (length cs))"
    by (simp add: cursor_of_def)
  let ?h3 = "?h2\<lparr>objs := ((objs ?h2)(p \<mapsto> P\<lparr>offset := offset P + num_param ?child2\<rparr>))(c := None)\<rparr>"
  have dtor: "StringParameters_dtor c ?h2 = (Inr (), ?h3)"
    by (rule dtor_child [OF c2 par2 P2])
  have P3: "objs ?h3 p = Some (P\<lparr>offset := offset P + k\<rparr>)"
    using cp by simp
  have nowrap: "offset P \<le> num_param P \<longrightarrow>
               unat (offset P + k) = unat (offset P) + unat k \<and> offset P + k \<le> num_param P"
    using k by (simp add: add_within_window)
  from ctor P1 run len cur dtor P3 nowrap show ?thesis by blast
qed

theorem MakeSubView_dtor_advances_by_size_witness:
  "objs example_root 0 = Some \<lparr>parent = None, data = 0, type = Some 0, offset = 0,
                               num_param = 3, next_type = 0\<rparr>
   \<and> (1 :: ref) \<noteq> 0 \<and> (2 :: uint) \<le> 3 - 0 \<and> length [NextInt64] \<le> unat (2 :: uint)
   \<and> (\<exists>h1 vs h2 h3.
         StringParameters_ctor_sub 1 0 2 example_root = (Inr (), h1)
       \<and> cursor_of 0 h1 = Some 0
       \<and> call_Nexts [NextInt64] 1 h1 = (Inr vs, h2)
       \<and> cursor_of 1 h2 = Some 1
       \<and> StringParameters_dtor 1 h2 = (Inr (), h3)
       \<and> cursor_of 0 h3 = Some 2)"
proof -
  let ?P = "\<lparr>parent = None, data = 0, type = Some 0, offset = 0, num_param = 3 :: uint,
             next_type = 0 :: WChar\<rparr>"
  have P: "objs example_root 0 = Some ?P" by (simp add: example_root_def)
  have cp: "(1 :: ref) \<noteq> 0" by simp
  have k: "(2 :: uint) \<le> num_param ?P - offset ?P" by simp
  have j: "length [NextInt64] \<le> unat (2 :: uint)" by simp
  from MakeSubView_dtor_advances_by_size [OF P cp k j]
  obtain h1 vs h2 h3 where
    "StringParameters_ctor_sub 1 0 2 example_root = (Inr (), h1)"
    "objs h1 0 = Some ?P"
    "call_Nexts [NextInt64] 1 h1 = (Inr vs, h2)"
    "cursor_of 1 h2 = Some (of_nat (length [NextInt64]))"
    "StringParameters_dtor 1 h2 = (Inr (), h3)"
    "objs h3 0 = Some (?P\<lparr>offset := offset ?P + 2\<rparr>)"
    by blast
  then have
    "StringParameters_ctor_sub 1 0 2 example_root = (Inr (), h1)
     \<and> cursor_of 0 h1 = Some 0
     \<and> call_Nexts [NextInt64] 1 h1 = (Inr vs, h2)
     \<and> cursor_of 1 h2 = Some 1
     \<and> StringParameters_dtor 1 h2 = (Inr (), h3)
     \<and> cursor_of 0 h3 = Some 2"
    by (simp add: cursor_of_def)
  then have "\<exists>h1 vs h2 h3.
       StringParameters_ctor_sub 1 0 2 example_root = (Inr (), h1)
     \<and> cursor_of 0 h1 = Some 0
     \<and> call_Nexts [NextInt64] 1 h1 = (Inr vs, h2)
     \<and> cursor_of 1 h2 = Some 1
     \<and> StringParameters_dtor 1 h2 = (Inr (), h3)
     \<and> cursor_of 0 h3 = Some 2"
    by blast
  with P show ?thesis by simp
qed

text \<open>
  C2, as the code has it. When a view with a parent is destroyed, the parent's cursor
  grows by the view's \<^verbatim>\<open>num_param\<close>, the size it was made with; the view's own cursor
  (the number of slots it has read) plays no part. Nothing else of the parent changes.
\<close>

theorem dtor_adds_num_param:
  assumes "objs h c = Some s"
    and "parent s = Some p"
    and "objs h p = Some P"
    and "c \<noteq> p"
  shows "\<exists>h'. StringParameters_dtor c h = (Inr (), h')
            \<and> objs h' p = Some (P\<lparr>offset := offset P + num_param s\<rparr>)
            \<and> objs h' c = None
            \<and> mem64 h' = mem64 h \<and> memT h' = memT h"
  using assms by (simp add: dtor_child)

theorem dtor_adds_num_param_witness:
  "objs example_child_read 1 =
     Some \<lparr>parent = Some 0, data = 0, type = Some 0, offset = 1, num_param = 2, next_type = 0\<rparr>
   \<and> objs example_child_read 0 =
     Some \<lparr>parent = None, data = 0, type = Some 0, offset = 0, num_param = 3, next_type = 0\<rparr>
   \<and> (1 :: ref) \<noteq> 0
   \<and> (\<exists>h'. StringParameters_dtor 1 example_child_read = (Inr (), h')
          \<and> objs h' 0 =
              Some \<lparr>parent = None, data = 0, type = Some 0, offset = 2, num_param = 3,
                    next_type = 0\<rparr>)"
proof -
  let ?s = "\<lparr>parent = Some (0 :: ref), data = 0 :: addr, type = Some (0 :: addr),
             offset = 1 :: uint, num_param = 2 :: uint, next_type = 0 :: WChar\<rparr>"
  let ?P = "\<lparr>parent = None :: ref option, data = 0 :: addr, type = Some (0 :: addr),
             offset = 0 :: uint, num_param = 3 :: uint, next_type = 0 :: WChar\<rparr>"
  have s: "objs example_child_read 1 = Some ?s"
    by (simp add: example_child_read_def)
  have par: "parent ?s = Some 0" by simp
  have P: "objs example_child_read 0 = Some ?P"
    by (simp add: example_child_read_def)
  have cp: "(1 :: ref) \<noteq> 0" by simp
  from dtor_adds_num_param [OF s par P cp]
  obtain h' where "StringParameters_dtor 1 example_child_read = (Inr (), h')"
    and "objs h' 0 = Some (?P\<lparr>offset := offset ?P + num_param ?s\<rparr>)"
    by blast
  then have "\<exists>h'. StringParameters_dtor 1 example_child_read = (Inr (), h')
          \<and> objs h' 0 =
              Some \<lparr>parent = None, data = 0, type = Some 0, offset = 2, num_param = 3,
                    next_type = 0\<rparr>"
    by simp
  with s P show ?thesis by simp
qed

text \<open>
  The claim C2 as it is written (the parent's cursor grows by the child's final cursor)
  fails on \<open>example_child_read\<close>: the child at address 1 has read one of its two slots,
  so its cursor is 1 and the parent's is 0; after the destructor the parent's cursor is
  2, not 1.
\<close>

theorem dtor_adds_consumed_counterexample:
  "cursor_of 0 example_child_read = Some 0
   \<and> cursor_of 1 example_child_read = Some 1
   \<and> fst (StringParameters_dtor 1 example_child_read) = Inr ()
   \<and> cursor_of 0 (snd (StringParameters_dtor 1 example_child_read)) = Some 2
   \<and> cursor_of 0 (snd (StringParameters_dtor 1 example_child_read)) \<noteq> Some (0 + 1)"
  by (simp add: cursor_of_def StringParameters_dtor_def example_child_read_def)

text \<open>
  C3. When \<open>k\<close> is greater than what \<^verbatim>\<open>GetDataLeft\<close> returns for the parent, the
  constructor of a child view fails on its assertion, and the state it leaves is the
  state it started from: the parent object, the values and the type tags are untouched,
  and no child exists.
\<close>

theorem MakeSubView_too_large_fails:
  assumes "fst (GetDataLeft p h) = Inr left"
    and "left < k"
  shows "StringParameters_ctor_sub c p k h = (Inl AssertionFailed, h)"
  using assms
  by (auto simp: StringParameters_ctor_sub_def GetDataLeft_def split: option.splits)

theorem MakeSubView_too_large_fails_witness:
  "fst (GetDataLeft 0 example_root) = Inr 3 \<and> (3 :: uint) < 4
   \<and> StringParameters_ctor_sub 1 0 4 example_root = (Inl AssertionFailed, example_root)"
proof -
  have a: "fst (GetDataLeft 0 example_root) = Inr 3"
    by (simp add: GetDataLeft_def example_root_def)
  have b: "(3 :: uint) < 4" by simp
  from MakeSubView_too_large_fails [OF a b, of 1] a b show ?thesis by simp
qed

section \<open>Reading to the end\<close>

text \<open>
  C4. On a list just constructed with \<open>n\<close> slots, \<open>n\<close> calls of \<^verbatim>\<open>GetInt32\<close> in a row
  all succeed, and the call after them fails on the precondition
  \<^verbatim>\<open>offset < num_param\<close>.
\<close>

theorem GetInt32_n_times_then_fails:
  "\<exists>vs h'. call_Nexts (replicate (unat n) NextInt32) c
              (snd (StringParameters_ctor c d n t h)) = (Inr vs, h')
          \<and> length vs = unat n
          \<and> GetInt32 c h' = (Inl AssertionFailed, h')"
proof -
  let ?s = "\<lparr>parent = None, data = d, type = t, offset = 0, num_param = n, next_type = 0\<rparr>"
  let ?h0 = "h\<lparr>objs := (objs h)(c \<mapsto> ?s)\<rparr>"
  let ?cs = "replicate (unat n) NextInt32"
  have h0: "snd (StringParameters_ctor c d n t h) = ?h0"
    by (simp add: StringParameters_ctor_def)
  have s: "objs ?h0 c = Some ?s" by simp
  have "length ?cs \<le> unat (num_param ?s) - unat (offset ?s)" by simp
  from call_Nexts_ok [OF s this]
  obtain vs where
    run: "call_Nexts ?cs c ?h0 =
            (Inr vs, ?h0\<lparr>objs := (objs ?h0)(c \<mapsto> ?s\<lparr>offset := offset ?s + of_nat (length ?cs)\<rparr>)\<rparr>)"
    and len: "length vs = length ?cs"
    by blast
  let ?s' = "?s\<lparr>offset := offset ?s + of_nat (length ?cs)\<rparr>"
  let ?h' = "?h0\<lparr>objs := (objs ?h0)(c \<mapsto> ?s')\<rparr>"
  have s': "objs ?h' c = Some ?s'" by simp
  have "\<not> offset ?s' < num_param ?s'" by simp
  from GetInt32_fail [OF s' this]
  have "GetInt32 c ?h' = (Inl AssertionFailed, ?h')" .
  with run len h0 show ?thesis by simp
qed

text \<open>
  C5. \<^verbatim>\<open>GetDataLeft\<close> returns \<^verbatim>\<open>num_param - offset\<close> and leaves the state as it is.
  On a list constructed with \<open>n\<close> slots, after \<open>k \<le> n\<close> calls of \<^verbatim>\<open>GetInt32\<close> or
  \<^verbatim>\<open>GetInt64\<close> (the calls \<open>cs\<close>, \<open>k = length cs\<close>), which all succeed, it returns \<open>n - k\<close>.
\<close>

theorem GetDataLeft_counts_unread:
  "(objs h r = Some s \<longrightarrow> GetDataLeft r h = (Inr (num_param s - offset s), h))
   \<and> (length cs \<le> unat n \<longrightarrow>
        (\<exists>vs h' left. call_Nexts cs c (snd (StringParameters_ctor c d n t g)) = (Inr vs, h')
            \<and> GetDataLeft c h' = (Inr left, h')
            \<and> unat left = unat n - length cs))"
proof (intro conjI impI)
  assume "objs h r = Some s"
  then show "GetDataLeft r h = (Inr (num_param s - offset s), h)"
    by (simp add: GetDataLeft_def)
next
  assume k: "length cs \<le> unat n"
  let ?s = "\<lparr>parent = None, data = d, type = t, offset = 0, num_param = n, next_type = 0\<rparr>"
  let ?h0 = "g\<lparr>objs := (objs g)(c \<mapsto> ?s)\<rparr>"
  have h0: "snd (StringParameters_ctor c d n t g) = ?h0"
    by (simp add: StringParameters_ctor_def)
  have s: "objs ?h0 c = Some ?s" by simp
  have "length cs \<le> unat (num_param ?s) - unat (offset ?s)"
    using k by simp
  from call_Nexts_ok [OF s this]
  obtain vs where
    run: "call_Nexts cs c ?h0 =
            (Inr vs, ?h0\<lparr>objs := (objs ?h0)(c \<mapsto> ?s\<lparr>offset := offset ?s + of_nat (length cs)\<rparr>)\<rparr>)"
    by blast
  let ?h' = "?h0\<lparr>objs := (objs ?h0)(c \<mapsto> ?s\<lparr>offset := offset ?s + of_nat (length cs)\<rparr>)\<rparr>"
  have left: "GetDataLeft c ?h' = (Inr (n - of_nat (length cs)), ?h')"
    by (simp add: GetDataLeft_def)
  have u: "unat (of_nat (length cs) :: uint) = length cs"
    using k by (rule le_unat_uoi)
  with k have le: "(of_nat (length cs) :: uint) \<le> n"
    by (simp add: word_le_nat_alt)
  with u have "unat (n - of_nat (length cs)) = unat n - length cs"
    by (simp add: unat_sub)
  with run left h0
  show "\<exists>vs h' left. call_Nexts cs c (snd (StringParameters_ctor c d n t g)) = (Inr vs, h')
            \<and> GetDataLeft c h' = (Inr left, h')
            \<and> unat left = unat n - length cs"
    by (simp del: call_Nexts.simps)
qed

theorem GetDataLeft_counts_unread_witness:
  "objs example_child_read 1 =
     Some \<lparr>parent = Some 0, data = 0, type = Some 0, offset = 1, num_param = 2, next_type = 0\<rparr>
   \<and> GetDataLeft 1 example_child_read = (Inr 1, example_child_read)
   \<and> length [NextInt32, NextInt64] \<le> unat (3 :: uint)
   \<and> (\<exists>vs h' left.
         call_Nexts [NextInt32, NextInt64] 0
           (snd (StringParameters_ctor 0 0 3 (Some 0) example_memory)) = (Inr vs, h')
       \<and> GetDataLeft 0 h' = (Inr left, h')
       \<and> unat left = 1)"
proof -
  let ?s = "\<lparr>parent = Some (0 :: ref), data = 0 :: addr, type = Some (0 :: addr),
             offset = 1 :: uint, num_param = 2 :: uint, next_type = 0 :: WChar\<rparr>"
  have s: "objs example_child_read 1 = Some ?s"
    by (simp add: example_child_read_def)
  have k: "length [NextInt32, NextInt64] \<le> unat (3 :: uint)" by simp
  from GetDataLeft_counts_unread
         [of example_child_read 1 ?s "[NextInt32, NextInt64]" 3 0 0 "Some 0" example_memory]
       s k
  show ?thesis by simp
qed

section \<open>Type information and indexed access\<close>

text \<open>
  C7. A list built by the constructor that takes an array of \<^verbatim>\<open>int64\<close> has no type
  information: \<^verbatim>\<open>HasTypeInformation\<close> returns false on it, and \<^verbatim>\<open>GetTypeAtOffset\<close>
  fails on it at every offset. For every list, \<^verbatim>\<open>GetTypeAtOffset\<close> fails if and only if
  the list has no type information or the offset is not below \<^verbatim>\<open>num_param\<close>; the
  failure is a failed assertion, and a call that does not fail returns the tag at that
  offset of the list's type array. No call changes the state.
\<close>

theorem GetTypeAtOffset_fails_iff:
  "HasTypeInformation c (snd (StringParameters_ctor_array c d n g))
     = (Inr False, snd (StringParameters_ctor_array c d n g))
   \<and> GetTypeAtOffset c i (snd (StringParameters_ctor_array c d n g))
     = (Inl AssertionFailed, snd (StringParameters_ctor_array c d n g))
   \<and> (objs h r = Some s \<longrightarrow>
        (isl (fst (GetTypeAtOffset r off h)) \<longleftrightarrow> (type s = None \<or> num_param s \<le> off))
      \<and> (isl (fst (GetTypeAtOffset r off h)) \<longrightarrow>
            GetTypeAtOffset r off h = (Inl AssertionFailed, h))
      \<and> (\<forall>t. type s = Some t \<and> off < num_param s \<longrightarrow>
            GetTypeAtOffset r off h = (Inr (memT h (t + unat off)), h)))"
  by (auto simp: HasTypeInformation_def StringParameters_ctor_array_def GetTypeAtOffset_def
      split: option.splits)

theorem GetTypeAtOffset_fails_iff_witness:
  "objs example_root 0 =
     Some \<lparr>parent = None, data = 0, type = Some 0, offset = 0, num_param = 3, next_type = 0\<rparr>
   \<and> GetTypeAtOffset 0 2 example_root = (Inr 0, example_root)
   \<and> isl (fst (GetTypeAtOffset 0 3 example_root))
   \<and> GetTypeAtOffset 0 3 example_root = (Inl AssertionFailed, example_root)"
proof -
  let ?P = "\<lparr>parent = None :: ref option, data = 0 :: addr, type = Some (0 :: addr),
             offset = 0 :: uint, num_param = 3 :: uint, next_type = 0 :: WChar\<rparr>"
  have P: "objs example_root 0 = Some ?P" by (simp add: example_root_def)
  have m: "\<And>a. memT example_root a = 0" by (simp add: example_root_def example_memory_def)
  from GetTypeAtOffset_fails_iff [of 0 0 0 example_root 0 example_root 0 ?P 2] P m
  have a: "GetTypeAtOffset 0 2 example_root = (Inr 0, example_root)" by simp
  from GetTypeAtOffset_fails_iff [of 0 0 0 example_root 0 example_root 0 ?P 3] P
  have b: "isl (fst (GetTypeAtOffset 0 3 example_root))" by simp
  from GetTypeAtOffset_fails_iff [of 0 0 0 example_root 0 example_root 0 ?P 3] P b
  have c: "GetTypeAtOffset 0 3 example_root = (Inl AssertionFailed, example_root)" by blast
  from P a b c show ?thesis by simp
qed

text \<open>
  C9. For a list \<open>s\<close> at address \<open>r\<close> and \<open>n\<close> below its \<^verbatim>\<open>num_param\<close>,
  \<^verbatim>\<open>SetParam(n, v)\<close> succeeds, and afterwards \<^verbatim>\<open>GetParam(n)\<close> returns \<open>v\<close>. The objects
  (so the cursor and the length of every list) and the type tags are as before, the only
  cell written is the one of slot \<open>n\<close>, and \<^verbatim>\<open>GetParam(m)\<close> returns for every other
  slot \<open>m\<close> what it returned before.
\<close>

theorem SetParam_writes_one_slot:
  assumes "objs h r = Some s"
    and "n < num_param s"
  shows "\<exists>h'. SetParam r n v h = (Inr (), h')
            \<and> GetParam r n h' = (Inr v, h')
            \<and> objs h' = objs h
            \<and> memT h' = memT h
            \<and> mem64 h' = (mem64 h)(data s + unat n := v)
            \<and> (\<forall>m. m \<noteq> n \<longrightarrow> fst (GetParam r m h') = fst (GetParam r m h))"
  using assms by (auto simp: SetParam_def GetParam_def word_unat_eq_iff)

theorem SetParam_writes_one_slot_witness:
  "objs example_root 0 =
     Some \<lparr>parent = None, data = 0, type = Some 0, offset = 0, num_param = 3, next_type = 0\<rparr>
   \<and> (1 :: uint) < 3
   \<and> (\<exists>h'. SetParam 0 1 9 example_root = (Inr (), h')
          \<and> GetParam 0 1 h' = (Inr 9, h')
          \<and> cursor_of 0 h' = Some 0
          \<and> fst (GetParam 0 0 h') = Inr 5
          \<and> fst (GetParam 0 2 h') = Inr 2)"
proof -
  let ?P = "\<lparr>parent = None :: ref option, data = 0 :: addr, type = Some (0 :: addr),
             offset = 0 :: uint, num_param = 3 :: uint, next_type = 0 :: WChar\<rparr>"
  have P: "objs example_root 0 = Some ?P" by (simp add: example_root_def)
  have n: "(1 :: uint) < num_param ?P" by simp
  have g0: "fst (GetParam 0 0 example_root) = Inr 5"
    by (simp add: GetParam_def example_root_def example_memory_def)
  have g2: "fst (GetParam 0 2 example_root) = Inr 2"
    by (simp add: GetParam_def example_root_def example_memory_def)
  from SetParam_writes_one_slot [OF P n, of 9]
  obtain h' where h': "SetParam 0 1 9 example_root = (Inr (), h')"
      "GetParam 0 1 h' = (Inr 9, h')"
      "objs h' = objs example_root"
      "\<forall>m. m \<noteq> 1 \<longrightarrow> fst (GetParam 0 m h') = fst (GetParam 0 m example_root)"
    by blast
  from h'(4) g0 have a: "fst (GetParam 0 0 h') = Inr 5" by simp
  from h'(4) g2 have b: "fst (GetParam 0 2 h') = Inr 2" by simp
  from h'(3) P have c: "cursor_of 0 h' = Some 0" by (simp add: cursor_of_def)
  from h'(1,2) a b c have "\<exists>h'. SetParam 0 1 9 example_root = (Inr (), h')
          \<and> GetParam 0 1 h' = (Inr 9, h')
          \<and> cursor_of 0 h' = Some 0
          \<and> fst (GetParam 0 0 h') = Inr 5
          \<and> fst (GetParam 0 2 h') = Inr 2"
    by blast
  with P show ?thesis by simp
qed

text \<open>
  C10. For a list \<open>s\<close> at address \<open>r\<close>, \<^verbatim>\<open>GetRemainingParameters\<close> builds a view \<open>V\<close> (at
  another address \<open>v\<close>) whose length is what \<^verbatim>\<open>GetDataLeft\<close> returns for \<open>s\<close>, whose
  arrays start at the cursor of \<open>s\<close>, whose cursor is 0, which has type information
  exactly when \<open>s\<close> has, and whose \<^verbatim>\<open>parent\<close> is null; \<open>s\<close> itself is unchanged.
  Destroying \<open>V\<close> leaves \<open>s\<close> unchanged. A child view of the same size made by the
  constructor that takes the parent moves the cursor of \<open>s\<close> to its length when it is
  destroyed.
\<close>

theorem GetRemainingParameters_has_no_parent:
  assumes "objs h r = Some s"
    and "v \<noteq> r"
  shows "\<exists>h1 V h2 g1 g2.
           GetRemainingParameters r v h = (Inr (), h1)
         \<and> objs h1 v = Some V
         \<and> GetDataLeft r h = (Inr (num_param V), h)
         \<and> data V = data s + unat (offset s)
         \<and> type V = map_option (\<lambda>t. t + unat (offset s)) (type s)
         \<and> (type V = None \<longleftrightarrow> type s = None)
         \<and> offset V = 0
         \<and> parent V = None
         \<and> objs h1 r = Some s
         \<and> StringParameters_dtor v h1 = (Inr (), h2)
         \<and> objs h2 r = Some s
         \<and> StringParameters_ctor_sub v r (num_param V) h = (Inr (), g1)
         \<and> StringParameters_dtor v g1 = (Inr (), g2)
         \<and> objs g2 r = Some (s\<lparr>offset := num_param s\<rparr>)"
  using assms
  by (simp add: GetRemainingParameters_def GetDataLeft_def StringParameters_ctor_def
      StringParameters_ctor_sub_def StringParameters_dtor_def split: option.splits)

theorem GetRemainingParameters_has_no_parent_witness:
  "objs example_child_read 1 =
     Some \<lparr>parent = Some 0, data = 0, type = Some 0, offset = 1, num_param = 2, next_type = 0\<rparr>
   \<and> (2 :: ref) \<noteq> 1
   \<and> (\<exists>h1 V h2. GetRemainingParameters 1 2 example_child_read = (Inr (), h1)
       \<and> objs h1 2 = Some V
       \<and> num_param V = 1 \<and> data V = 1 \<and> type V = Some 1 \<and> offset V = 0
       \<and> parent V = None
       \<and> StringParameters_dtor 2 h1 = (Inr (), h2)
       \<and> cursor_of 1 h2 = Some 1)"
proof -
  let ?s = "\<lparr>parent = Some (0 :: ref), data = 0 :: addr, type = Some (0 :: addr),
             offset = 1 :: uint, num_param = 2 :: uint, next_type = 0 :: WChar\<rparr>"
  have s: "objs example_child_read 1 = Some ?s"
    by (simp add: example_child_read_def)
  have vr: "(2 :: ref) \<noteq> 1" by simp
  have left: "GetDataLeft 1 example_child_read = (Inr 1, example_child_read)"
    using s by (simp add: GetDataLeft_def)
  from GetRemainingParameters_has_no_parent [OF s vr]
  obtain h1 V h2 where f:
      "GetRemainingParameters 1 2 example_child_read = (Inr (), h1)"
      "objs h1 2 = Some V"
      "GetDataLeft 1 example_child_read = (Inr (num_param V), example_child_read)"
      "data V = data ?s + unat (offset ?s)"
      "type V = map_option (\<lambda>t. t + unat (offset ?s)) (type ?s)"
      "offset V = 0" "parent V = None"
      "StringParameters_dtor 2 h1 = (Inr (), h2)"
      "objs h2 1 = Some ?s"
    by blast
  from f(3) left have n: "num_param V = 1" by simp
  from f(4) have d: "data V = 1" by simp
  from f(5) have t: "type V = Some 1" by simp
  from f(9) have c: "cursor_of 1 h2 = Some 1" by (simp add: cursor_of_def)
  from f(1,2,6,7,8) n d t c
  have "\<exists>h1 V h2. GetRemainingParameters 1 2 example_child_read = (Inr (), h1)
       \<and> objs h1 2 = Some V
       \<and> num_param V = 1 \<and> data V = 1 \<and> type V = Some 1 \<and> offset V = 0
       \<and> parent V = None
       \<and> StringParameters_dtor 2 h1 = (Inr (), h2)
       \<and> cursor_of 1 h2 = Some 1"
    by blast
  with s show ?thesis by simp
qed

section \<open>StringBuilder\<close>

text \<open>
  C6. \<^verbatim>\<open>RemoveElementsFromBack(amount)\<close> never fails, and what it leaves is the string
  without its last \<open>min amount (length s)\<close> characters, so \<^verbatim>\<open>CurrentIndex\<close> drops by
  that number. After \<open>''abc''\<close> was appended to a buffer \<open>b\<close>, removing 2 leaves \<open>b\<close>
  followed by \<open>''a''\<close>, which is \<open>''a''\<close> for the empty buffer; removing 100 from a
  buffer of three characters leaves the empty string.
\<close>

theorem RemoveElementsFromBack_clamps:
  "(\<exists>kept removed. s = kept @ removed \<and> length removed = min amount (length s)
        \<and> RemoveElementsFromBack amount s = Inr kept)
   \<and> CurrentIndex (projr (RemoveElementsFromBack amount s))
       = CurrentIndex s - min amount (CurrentIndex s)
   \<and> RemoveElementsFromBack 2 (StringBuilder_add_str ''abc'' b)
       = Inr (StringBuilder_add_str ''a'' b)
   \<and> RemoveElementsFromBack 2 (StringBuilder_add_str ''abc'' []) = Inr ''a''
   \<and> RemoveElementsFromBack 100 [x, y, z] = Inr []"
proof -
  let ?pos = "length s - min amount (length s)"
  have "s = take ?pos s @ drop ?pos s" by simp
  moreover have "length (drop ?pos s) = min amount (length s)" by simp
  moreover have r: "RemoveElementsFromBack amount s = Inr (take ?pos s)"
    by (simp add: RemoveElementsFromBack_def string_erase_def)
  ultimately have
    "\<exists>kept removed. s = kept @ removed \<and> length removed = min amount (length s)
        \<and> RemoveElementsFromBack amount s = Inr kept"
    by blast
  moreover have "CurrentIndex (projr (RemoveElementsFromBack amount s))
       = CurrentIndex s - min amount (CurrentIndex s)"
    by (simp add: r CurrentIndex_def)
  moreover have "RemoveElementsFromBack 2 (StringBuilder_add_str ''abc'' b)
       = Inr (StringBuilder_add_str ''a'' b)"
    by (simp add: RemoveElementsFromBack_def string_erase_def StringBuilder_add_str_def
        string_append_def)
  moreover have "RemoveElementsFromBack 2 (StringBuilder_add_str ''abc'' []) = Inr ''a''"
    by (simp add: RemoveElementsFromBack_def string_erase_def StringBuilder_add_str_def
        string_append_def)
  moreover have "RemoveElementsFromBack 100 [x, y, z] = Inr []"
    by (simp add: RemoveElementsFromBack_def string_erase_def)
  ultimately show ?thesis by blast
qed

text \<open>
  C8. Appending the characters of a string one after the other with \<^verbatim>\<open>operator+=(char)\<close>
  gives the same buffer as appending the string at once with
  \<^verbatim>\<open>operator+=(std::string_view)\<close>, from any buffer.
\<close>

theorem add_chars_eq_add_str:
  "fold StringBuilder_add_char str buf = StringBuilder_add_str str buf"
  by (induction str arbitrary: buf)
     (simp_all add: StringBuilder_add_char_def StringBuilder_add_str_def push_back_def
        string_append_def)

end
